theory Spec2Isabelle
  imports Main
begin

unbundle bit_operations_syntax

section \<open>Exceptions\<close>

text \<open>
  The Python exceptions the modelled code raises or lets through. A function that may
  raise returns \<open>error + 'a\<close>, with \<open>Inl\<close> for the exception.
\<close>

datatype error =
    ValueError
  | RuntimeError
  | KeyError
  | AttributeError
  | UnicodeDecodeError
  | JSONDecodeError
  | HTTPException nat
  | RedisError
  | DatabaseError
  | IntegrityError
  | AMQPError
  | SerialisationError
  | ClickHouseError

section \<open>Base62 codec (app/core/id_generator.py)\<close>

definition BASE62_CHARS :: string where
  "BASE62_CHARS = ''0123456789abcdefghijklmnopqrstuvwxyzABCDEFGHIJKLMNOPQRSTUVWXYZ''"

text \<open>
  The \<open>while num > 0\<close> loop of \<open>base62_encode\<close>: append the symbol of \<open>num % 62\<close>,
  then \<open>num //= 62\<close>. Python integers are unbounded, so \<open>num\<close> is an \<open>int\<close>.
\<close>

function base62_encode_loop :: "int \<Rightarrow> string \<Rightarrow> string" where
  "base62_encode_loop num encoded =
     (if num > 0
      then base62_encode_loop (num div 62) (encoded @ [BASE62_CHARS ! nat (num mod 62)])
      else encoded)"
  by pat_completeness auto
termination
  by (relation "measure (\<lambda>(num, encoded). nat num)") auto

definition base62_encode :: "int \<Rightarrow> string" where
  "base62_encode num =
     (if num = 0 then [BASE62_CHARS ! 0] else rev (base62_encode_loop num []))"

text \<open>\<open>str.index\<close>: the position of the first occurrence, \<open>ValueError\<close> when absent.\<close>

fun str_index :: "string \<Rightarrow> char \<Rightarrow> error + int" where
  "str_index [] c = Inl ValueError"
| "str_index (x # xs) c =
     (if x = c then Inr 0
      else (case str_index xs c of Inl e \<Rightarrow> Inl e | Inr i \<Rightarrow> Inr (i + 1)))"

text \<open>The \<open>for char in encoded\<close> loop of \<open>base62_decode\<close>, with its accumulator.\<close>

fun base62_decode_loop :: "int \<Rightarrow> string \<Rightarrow> error + int" where
  "base62_decode_loop num [] = Inr num"
| "base62_decode_loop num (char # rest) =
     (case str_index BASE62_CHARS char of
        Inl e \<Rightarrow> Inl e
      | Inr i \<Rightarrow> base62_decode_loop (num * 62 + i) rest)"

definition base62_decode :: "string \<Rightarrow> error + int" where
  "base62_decode encoded = base62_decode_loop 0 encoded"

section \<open>Snowflake generator (app/core/id_generator.py)\<close>

definition TIMESTAMP_BITS :: nat where "TIMESTAMP_BITS = 41"
definition WORKER_ID_BITS :: nat where "WORKER_ID_BITS = 10"
definition SEQUENCE_BITS :: nat where "SEQUENCE_BITS = 12"

definition MAX_WORKER_ID :: int where
  "MAX_WORKER_ID = push_bit WORKER_ID_BITS 1 - 1"

definition MAX_SEQUENCE :: int where
  "MAX_SEQUENCE = push_bit SEQUENCE_BITS 1 - 1"

definition EPOCH :: int where "EPOCH = 1704067200000"

record SnowflakeIDGenerator =
  worker_id :: int
  sequence :: int
  last_timestamp :: int

text \<open>\<open>__init__\<close>: rejects a worker id outside \<open>0..MAX_WORKER_ID\<close>.\<close>

definition snowflake_init :: "int \<Rightarrow> error + SnowflakeIDGenerator" where
  "snowflake_init w =
     (if \<not> (0 \<le> w \<and> w \<le> MAX_WORKER_ID) then Inl ValueError
      else Inr \<lparr>worker_id = w, sequence = 0, last_timestamp = - 1\<rparr>)"

text \<open>
  The wall clock is the list of the readings that \<open>_current_timestamp\<close> will return, in
  milliseconds, one per call. A call that finds the list empty has not returned within
  the observed readings: the result is \<open>None\<close>.
\<close>

type_synonym clock = "int list"

definition current_timestamp :: "clock \<Rightarrow> (int \<times> clock) option" where
  "current_timestamp clk = (case clk of [] \<Rightarrow> None | t # rest \<Rightarrow> Some (t, rest))"

text \<open>
  \<open>_wait_next_millisecond\<close>: read the clock until a reading is beyond \<open>last_ts\<close>. The busy
  spin does not return while the clock stands still.
\<close>

fun wait_next_millisecond :: "int \<Rightarrow> clock \<Rightarrow> (int \<times> clock) option" where
  "wait_next_millisecond last_ts [] = None"
| "wait_next_millisecond last_ts (timestamp # rest) =
     (if timestamp \<le> last_ts then wait_next_millisecond last_ts rest
      else Some (timestamp, rest))"

text \<open>The tail of \<open>generate\<close>: commit \<open>last_timestamp\<close> and build the id.\<close>

definition build_id :: "SnowflakeIDGenerator \<Rightarrow> int \<Rightarrow> int \<times> SnowflakeIDGenerator" where
  "build_id g timestamp =
     (let g' = g\<lparr>last_timestamp := timestamp\<rparr>;
          id_value = (push_bit (WORKER_ID_BITS + SEQUENCE_BITS) (timestamp - EPOCH)
                        OR push_bit SEQUENCE_BITS (worker_id g'))
                       OR sequence g'
      in (id_value, g'))"

text \<open>
  \<open>generate\<close>: the result is the exception or the id, the generator as the call leaves
  it, and the rest of the clock.
\<close>

definition generate ::
  "SnowflakeIDGenerator \<Rightarrow> clock \<Rightarrow> ((error + int) \<times> SnowflakeIDGenerator \<times> clock) option" where
  "generate g clk =
     (case current_timestamp clk of
        None \<Rightarrow> None
      | Some (timestamp, clk1) \<Rightarrow>
          if timestamp < last_timestamp g then Some (Inl RuntimeError, g, clk1)
          else if timestamp = last_timestamp g then
            (let g1 = g\<lparr>sequence := (sequence g + 1) AND MAX_SEQUENCE\<rparr>
             in if sequence g1 = 0
                then (case wait_next_millisecond (last_timestamp g1) clk1 of
                        None \<Rightarrow> None
                      | Some (timestamp', clk2) \<Rightarrow>
                          (let (i, g2) = build_id g1 timestamp' in Some (Inr i, g2, clk2)))
                else (let (i, g2) = build_id g1 timestamp in Some (Inr i, g2, clk1)))
          else (let (i, g2) = build_id (g\<lparr>sequence := 0\<rparr>) timestamp
                in Some (Inr i, g2, clk1)))"

text \<open>\<open>generate_short_code\<close>: \<open>base62_encode(self.generate())\<close>.\<close>

definition generate_short_code ::
  "SnowflakeIDGenerator \<Rightarrow> clock \<Rightarrow> ((error + string) \<times> SnowflakeIDGenerator \<times> clock) option" where
  "generate_short_code g clk =
     (case generate g clk of
        None \<Rightarrow> None
      | Some (Inl e, g', clk') \<Rightarrow> Some (Inl e, g', clk')
      | Some (Inr i, g', clk') \<Rightarrow> Some (Inr (base62_encode i), g', clk'))"

text \<open>
  A sequence of \<open>n\<close> calls of \<open>generate\<close> on one generator instance: the results of the
  calls that returned, in order. A call that raises leaves the generator for the next.
\<close>

fun generate_calls :: "nat \<Rightarrow> SnowflakeIDGenerator \<Rightarrow> clock \<Rightarrow> (error + int) list" where
  "generate_calls 0 g clk = []"
| "generate_calls (Suc n) g clk =
     (case generate g clk of
        None \<Rightarrow> []
      | Some (r, g', clk') \<Rightarrow> r # generate_calls n g' clk')"

text \<open>The ids of the successful calls among the results.\<close>

fun returned_ids :: "(error + int) list \<Rightarrow> int list" where
  "returned_ids [] = []"
| "returned_ids (Inl e # rs) = returned_ids rs"
| "returned_ids (Inr i # rs) = i # returned_ids rs"

section \<open>Settings (app/core/setting.py)\<close>

record Settings =
  RABBITMQ_QUEUE :: string
  WORKER_ID_LEASE_TTL :: int
  WORKER_ID_RENEWAL_INTERVAL :: int
  SETTINGS_MAX_WORKER_ID :: int
  BASE_URL :: string

text \<open>The defaults of the \<open>Settings\<close> class.\<close>

definition settings :: Settings where
  "settings = \<lparr>RABBITMQ_QUEUE = ''click_events'', WORKER_ID_LEASE_TTL = 60,
     WORKER_ID_RENEWAL_INTERVAL = 30, SETTINGS_MAX_WORKER_ID = 1023,
     BASE_URL = ''http://localhost:8000''\<rparr>"

section \<open>Logging\<close>

datatype level = DEBUG | INFO | WARNING | ERROR

type_synonym log = "(level \<times> string) list"

section \<open>Python string helpers\<close>

text \<open>\<open>str(n)\<close> for an integer: its decimal digits, with a sign when negative.\<close>

function str_nat :: "nat \<Rightarrow> string" where
  "str_nat n =
     (if n < 10 then [''0123456789'' ! n]
      else str_nat (n div 10) @ [''0123456789'' ! (n mod 10)])"
  by pat_completeness auto
termination
  by (relation "measure (\<lambda>n. n)") auto

definition str_int :: "int \<Rightarrow> string" where
  "str_int i = (if i < 0 then CHR ''-'' # str_nat (nat (- i)) else str_nat (nat i))"

text \<open>\<open>s.replace(c, new)\<close> for a one-character pattern \<open>c\<close>: every occurrence.\<close>

definition str_replace :: "char \<Rightarrow> string \<Rightarrow> string \<Rightarrow> string" where
  "str_replace c new s = concat (map (\<lambda>x. if x = c then new else [x]) s)"

text \<open>\<open>s.rstrip(c)\<close>: drop the trailing occurrences of \<open>c\<close>.\<close>

definition rstrip :: "char \<Rightarrow> string \<Rightarrow> string" where
  "rstrip c s = rev (dropWhile (\<lambda>x. x = c) (rev s))"

text \<open>Truth value of an \<open>Optional[str]\<close>: \<open>None\<close> and the empty string are falsy.\<close>

definition truthy :: "string option \<Rightarrow> bool" where
  "truthy v = (case v of None \<Rightarrow> False | Some s \<Rightarrow> s \<noteq> [])"

section \<open>The key-value store client\<close>

text \<open>
  The Redis client is an external collaborator; the source uses its commands \<open>GET\<close>,
  \<open>SETEX\<close>, \<open>SET \<dots> NX EX\<close>, \<open>EXPIRE\<close> and \<open>DELETE\<close>. The store maps a key to its value
  and its time to live in seconds. A command listed in \<open>refused\<close> raises (connection
  lost, read-only replica, memory limit) instead of running.
\<close>

datatype redis_cmd = GET | SETEX | SET_NX | EXPIRE | DEL

record Redis =
  store :: "string \<rightharpoonup> string \<times> int"
  refused :: "redis_cmd set"

definition redis_get :: "Redis \<Rightarrow> string \<Rightarrow> error + string option" where
  "redis_get r key =
     (if GET \<in> refused r then Inl RedisError else Inr (map_option fst (store r key)))"

definition redis_setex :: "Redis \<Rightarrow> string \<Rightarrow> int \<Rightarrow> string \<Rightarrow> error + Redis" where
  "redis_setex r key ttl val =
     (if SETEX \<in> refused r then Inl RedisError
      else Inr (r\<lparr>store := (store r)(key \<mapsto> (val, ttl))\<rparr>))"

text \<open>\<open>set(key, value, nx=True, ex=ttl)\<close>: true when the key was absent and is now set.\<close>

definition redis_set_nx :: "Redis \<Rightarrow> string \<Rightarrow> string \<Rightarrow> int \<Rightarrow> error + bool \<times> Redis" where
  "redis_set_nx r key val ttl =
     (if SET_NX \<in> refused r then Inl RedisError
      else (case store r key of
              None \<Rightarrow> Inr (True, r\<lparr>store := (store r)(key \<mapsto> (val, ttl))\<rparr>)
            | Some old \<Rightarrow> Inr (False, r)))"

text \<open>\<open>expire(key, ttl)\<close>: whether the key existed; its time to live is reset.\<close>

definition redis_expire :: "Redis \<Rightarrow> string \<Rightarrow> int \<Rightarrow> error + bool \<times> Redis" where
  "redis_expire r key ttl =
     (if EXPIRE \<in> refused r then Inl RedisError
      else (case store r key of
              None \<Rightarrow> Inr (False, r)
            | Some (val, old_ttl) \<Rightarrow> Inr (True, r\<lparr>store := (store r)(key \<mapsto> (val, ttl))\<rparr>)))"

definition redis_delete :: "Redis \<Rightarrow> string \<Rightarrow> error + Redis" where
  "redis_delete r key =
     (if DEL \<in> refused r then Inl RedisError
      else Inr (r\<lparr>store := (store r)(key := None)\<rparr>))"

section \<open>RedisCache (app/core/redis_client.py)\<close>

definition KEY_PREFIX :: string where "KEY_PREFIX = ''short_url:''"

definition DEFAULT_TTL :: int where "DEFAULT_TTL = 86400"

definition make_key :: "string \<Rightarrow> string" where
  "make_key short_code = KEY_PREFIX @ short_code"

definition RedisCache_get :: "Redis \<Rightarrow> string \<Rightarrow> error + string option" where
  "RedisCache_get r short_code = redis_get r (make_key short_code)"

text \<open>
  \<open>RedisCache.set\<close>: \<open>ttl = ttl or self.DEFAULT_TTL\<close> takes the default when \<open>ttl\<close> is
  \<open>None\<close> or \<open>0\<close>. Nothing is caught: an error of \<open>setex\<close> leaves the method.
\<close>

definition RedisCache_set :: "Redis \<Rightarrow> string \<Rightarrow> string \<Rightarrow> int option \<Rightarrow> error + Redis" where
  "RedisCache_set r short_code url ttl =
     (let key = make_key short_code;
          ttl' = (case ttl of None \<Rightarrow> DEFAULT_TTL
                  | Some t \<Rightarrow> if t = 0 then DEFAULT_TTL else t)
      in redis_setex r key ttl' url)"

section \<open>The relational store (app/db/models.py)\<close>

record ShortURL =
  snowflake_id :: int
  original_url :: string
  short_code :: string
  created_at :: int

text \<open>
  The table of \<open>ShortURL\<close> rows, in insertion order. \<open>db_unavailable\<close> makes every
  statement raise.
\<close>

record Database =
  table_rows :: "ShortURL list"
  db_unavailable :: bool

text \<open>
  \<open>session.add(short_url); await session.commit()\<close>: the primary key \<open>snowflake_id\<close>
  and the unique index on \<open>short_code\<close> reject a duplicate.
\<close>

definition db_add_commit :: "Database \<Rightarrow> ShortURL \<Rightarrow> error + Database" where
  "db_add_commit db row =
     (if db_unavailable db then Inl DatabaseError
      else if snowflake_id row \<in> set (map snowflake_id (table_rows db))
              \<or> short_code row \<in> set (map short_code (table_rows db))
      then Inl IntegrityError
      else Inr (db\<lparr>table_rows := table_rows db @ [row]\<rparr>))"

text \<open>\<open>select(ShortURL).where(ShortURL.short_code == short_code)\<close>, then \<open>first()\<close>.\<close>

definition db_select_first :: "Database \<Rightarrow> string \<Rightarrow> error + ShortURL option" where
  "db_select_first db code =
     (if db_unavailable db then Inl DatabaseError
      else Inr (find (\<lambda>row. short_code row = code) (table_rows db)))"

section \<open>Click events and the message bus\<close>

text \<open>A decoded JSON value; an object is the list of the items of the Python dict.\<close>

datatype json =
    JNull
  | JBool bool
  | JNumber int
  | JString string
  | JArray "json list"
  | JObject "(string \<times> json) list"

text \<open>
  The body of a bus message: bytes that are not UTF-8, text that is not JSON, or the
  serialisation of a JSON value (what \<open>json.dumps(v).encode()\<close> produces and
  \<open>json.loads(body.decode())\<close> reads back).
\<close>

datatype payload = NotUtf8 | NotJson | Serialised json

definition json_loads_body :: "payload \<Rightarrow> error + json" where
  "json_loads_body body =
     (case body of
        NotUtf8 \<Rightarrow> Inl UnicodeDecodeError
      | NotJson \<Rightarrow> Inl JSONDecodeError
      | Serialised v \<Rightarrow> Inr v)"

section \<open>AnalyticsPublisher (app/core/analytics.py)\<close>

text \<open>
  The request metadata that the publisher reads: the headers and the host of the
  client address, when there is one.
\<close>

record Request =
  headers :: "string \<rightharpoonup> string"
  client :: "string option"

datatype publish_fault = ConnectionLost | ChannelClosed | SerialisationFailure

text \<open>
  The publisher with its exchange: the messages published so far, each with its routing
  key, and the fault, if any, that the next publish runs into.
\<close>

record AnalyticsPublisher =
  exchange :: "(string \<times> payload) list"
  fault :: "publish_fault option"

text \<open>
  The \<open>try\<close> block of \<open>publish_click_event\<close>. \<open>now\<close> is
  \<open>datetime.utcnow().isoformat()\<close>.
\<close>

definition publish_click_event_try ::
  "AnalyticsPublisher \<Rightarrow> string \<Rightarrow> Request \<Rightarrow> string \<Rightarrow> string \<Rightarrow> error + AnalyticsPublisher" where
  "publish_click_event_try pub code request url now =
     (let user_agent = (case headers request ''user-agent'' of None \<Rightarrow> [] | Some v \<Rightarrow> v);
          ip_address = (case client request of None \<Rightarrow> [] | Some host \<Rightarrow> host);
          referrer = (case headers request ''referer'' of None \<Rightarrow> [] | Some v \<Rightarrow> v);
          event = [(''short_code'', JString code),
                   (''timestamp'', JString (now @ ''Z'')),
                   (''user_agent'', JString user_agent),
                   (''ip_address'', JString ip_address),
                   (''referrer'', JString referrer),
                   (''original_url'', JString url)]
      in if fault pub = Some SerialisationFailure then Inl SerialisationError
         else (let message_body = Serialised (JObject event)
               in if fault pub = Some ConnectionLost \<or> fault pub = Some ChannelClosed
                  then Inl AMQPError
                  else Inr (pub\<lparr>exchange :=
                              exchange pub @ [(RABBITMQ_QUEUE settings, message_body)]\<rparr>)))"

text \<open>
  \<open>publish_click_event\<close>: \<open>except Exception\<close> logs a warning and does not raise. The
  result is what the coroutine returns or raises, the publisher and the log lines.
\<close>

definition publish_click_event ::
  "AnalyticsPublisher \<Rightarrow> string \<Rightarrow> Request \<Rightarrow> string \<Rightarrow> string
     \<Rightarrow> (error + unit) \<times> AnalyticsPublisher \<times> log" where
  "publish_click_event pub code request url now =
     (case publish_click_event_try pub code request url now of
        Inr pub' \<Rightarrow> (Inr (), pub', [(DEBUG, ''Published click event for short_code: '' @ code)])
      | Inl e \<Rightarrow> (Inr (), pub, [(WARNING, ''Failed to publish click event for '' @ code)]))"

section \<open>Endpoints (app/api/endpoints.py)\<close>

record RedirectResponse =
  status_code :: nat
  location :: string

text \<open>
  A task handed to \<open>asyncio.create_task\<close>: the arguments of the
  \<open>publish_click_event\<close> call it will run, detached from the request.
\<close>

type_synonym click_task = "string \<times> Request \<times> string"

text \<open>
  \<open>redirect_to_url\<close>. \<open>analytics\<close> is what \<open>get_analytics_publisher()\<close> returned
  (\<open>None\<close> when the bus is unavailable). The result is the response or the exception
  that leaves the handler, the key-value store, and the tasks scheduled.
\<close>

definition redirect_to_url ::
  "string \<Rightarrow> Request \<Rightarrow> Database \<Rightarrow> Redis \<Rightarrow> AnalyticsPublisher option
     \<Rightarrow> (error + RedirectResponse) \<times> Redis \<times> click_task list" where
  "redirect_to_url code request session redis analytics =
     (case RedisCache_get redis code of
        Inl e \<Rightarrow> (Inl e, redis, [])
      | Inr cached \<Rightarrow>
          if truthy cached then
            (Inr \<lparr>status_code = 301, location = the cached\<rparr>, redis,
             case analytics of None \<Rightarrow> [] | Some a \<Rightarrow> [(code, request, the cached)])
          else
            (case db_select_first session code of
               Inl e \<Rightarrow> (Inl e, redis, [])
             | Inr None \<Rightarrow> (Inl (HTTPException 404), redis, [])
             | Inr (Some short_url) \<Rightarrow>
                 (let url = original_url short_url
                  in case RedisCache_set redis code url None of
                       Inl e \<Rightarrow> (Inl e, redis, [])
                     | Inr redis' \<Rightarrow>
                         (Inr \<lparr>status_code = 301, location = url\<rparr>, redis',
                          case analytics of None \<Rightarrow> [] | Some a \<Rightarrow> [(code, request, url)]))))"

text \<open>
  The event loop runs the scheduled tasks after the handler has returned. What a task
  returns or raises is never awaited: only the publisher and the log keep a trace.
\<close>

fun run_tasks ::
  "AnalyticsPublisher \<Rightarrow> string \<Rightarrow> click_task list \<Rightarrow> AnalyticsPublisher \<times> log" where
  "run_tasks pub now [] = (pub, [])"
| "run_tasks pub now ((code, request, url) # rest) =
     (case publish_click_event pub code request url now of
        (r, pub', lines) \<Rightarrow>
          (case run_tasks pub' now rest of (pub'', lines') \<Rightarrow> (pub'', lines @ lines')))"

text \<open>One request \<open>GET /{short_code}\<close> with the tasks it leaves behind.\<close>

definition serve_redirect ::
  "string \<Rightarrow> Request \<Rightarrow> Database \<Rightarrow> Redis \<Rightarrow> AnalyticsPublisher option \<Rightarrow> string
     \<Rightarrow> (error + RedirectResponse) \<times> Redis \<times> AnalyticsPublisher option \<times> log" where
  "serve_redirect code request session redis analytics now =
     (case redirect_to_url code request session redis analytics of
        (response, redis', tasks) \<Rightarrow>
          (case analytics of
             None \<Rightarrow> (response, redis', None, [])
           | Some pub \<Rightarrow>
               (case run_tasks pub now tasks of
                  (pub', lines) \<Rightarrow> (response, redis', Some pub', lines))))"

text \<open>
  The status line of the reply: the framework answers an \<open>HTTPException\<close> with its
  status code and any other exception with 500.
\<close>

definition http_status :: "error + RedirectResponse \<Rightarrow> nat" where
  "http_status r =
     (case r of
        Inr response \<Rightarrow> status_code response
      | Inl (HTTPException c) \<Rightarrow> c
      | Inl e \<Rightarrow> 500)"

text \<open>The body of \<open>POST /shorten\<close>, after validation: the URL as a string.\<close>

datatype ShortenRequest = ShortenRequest (request_original_url: string)

text \<open>
  \<open>create_short_url\<close>. \<open>id_generator\<close> is the global of \<open>id_service\<close> (\<open>None\<close> before
  \<open>set_id_generator\<close>), \<open>now\<close> the \<open>created_at\<close> default. The result is the reply dict or
  the exception, with the store, generator, clock and cache as the call leaves them;
  \<open>None\<close> when \<open>generate\<close> does not return.
\<close>

definition create_short_url ::
  "ShortenRequest option \<Rightarrow> Database \<Rightarrow> SnowflakeIDGenerator option \<Rightarrow> clock \<Rightarrow> int \<Rightarrow> Redis
     \<Rightarrow> ((error + (string \<times> string) list) \<times> Database \<times> SnowflakeIDGenerator option
          \<times> clock \<times> Redis) option" where
  "create_short_url request session id_generator clk now redis =
     (if request = None \<or> request_original_url (the request) = []
      then Some (Inl (HTTPException 400), session, id_generator, clk, redis)
      else
        (let url_to_shorten = request_original_url (the request)
         in case id_generator of
              None \<Rightarrow> Some (Inl RuntimeError, session, id_generator, clk, redis)
            | Some g \<Rightarrow>
                (case generate g clk of
                   None \<Rightarrow> None
                 | Some (Inl e, g1, clk1) \<Rightarrow> Some (Inl e, session, Some g1, clk1, redis)
                 | Some (Inr snowflake, g1, clk1) \<Rightarrow>
                     (case generate_short_code g1 clk1 of
                        None \<Rightarrow> None
                      | Some (Inl e, g2, clk2) \<Rightarrow> Some (Inl e, session, Some g2, clk2, redis)
                      | Some (Inr code, g2, clk2) \<Rightarrow>
                          (let short_url = \<lparr>snowflake_id = snowflake,
                                 original_url = url_to_shorten, short_code = code,
                                 created_at = now\<rparr>
                           in case db_add_commit session short_url of
                                Inl e \<Rightarrow> Some (Inl e, session, Some g2, clk2, redis)
                              | Inr session' \<Rightarrow>
                                  (case RedisCache_set redis code url_to_shorten None of
                                     Inl e \<Rightarrow> Some (Inl e, session', Some g2, clk2, redis)
                                   | Inr redis' \<Rightarrow>
                                       (let short_url_full =
                                              rstrip CHR ''/'' (BASE_URL settings) @ ''/'' @ code
                                        in Some (Inr [(''short_code'', code),
                                                      (''short_url'', short_url_full),
                                                      (''original_url'', url_to_shorten)],
                                                 session', Some g2, clk2, redis'))))))))"

section \<open>WorkerIDManager (app/core/worker_id.py)\<close>

definition REDIS_KEY_PREFIX :: string where "REDIS_KEY_PREFIX = ''worker_id:lease:''"

record WorkerIDManager =
  manager_worker_id :: "int option"
  lease_ttl :: int
  renewal_interval :: int

definition WorkerIDManager_init :: WorkerIDManager where
  "WorkerIDManager_init =
     \<lparr>manager_worker_id = None, lease_ttl = WORKER_ID_LEASE_TTL settings,
      renewal_interval = WORKER_ID_RENEWAL_INTERVAL settings\<rparr>"

text \<open>
  The \<open>for candidate_id in range(max_worker_id + 1)\<close> loop of \<open>acquire_worker_id\<close>:
  the first candidate whose lease key could be set is taken.
\<close>

fun acquire_candidates ::
  "WorkerIDManager \<Rightarrow> Redis \<Rightarrow> int list \<Rightarrow> (error + int) \<times> WorkerIDManager \<times> Redis" where
  "acquire_candidates m r [] = (Inl RuntimeError, m, r)"
| "acquire_candidates m r (candidate_id # rest) =
     (case redis_set_nx r (REDIS_KEY_PREFIX @ str_int candidate_id) ''leased'' (lease_ttl m) of
        Inl e \<Rightarrow> (Inl e, m, r)
      | Inr (acquired, r') \<Rightarrow>
          if acquired then (Inr candidate_id, m\<lparr>manager_worker_id := Some candidate_id\<rparr>, r')
          else acquire_candidates m r' rest)"

definition acquire_worker_id ::
  "WorkerIDManager \<Rightarrow> Redis \<Rightarrow> (error + int) \<times> WorkerIDManager \<times> Redis" where
  "acquire_worker_id m r = acquire_candidates m r [0..SETTINGS_MAX_WORKER_ID settings]"

text \<open>
  What the rest of the cluster does to the store while the renewal task is suspended:
  a lease runs out, another process takes a slot with its own set-if-absent, or the
  store starts refusing commands of this client.
\<close>

datatype env_move =
    LeaseExpires string
  | OtherAcquires string int
  | Outage "redis_cmd set"

fun env_step :: "env_move \<Rightarrow> Redis \<Rightarrow> Redis" where
  "env_step (LeaseExpires key) r = r\<lparr>store := (store r)(key := None)\<rparr>"
| "env_step (OtherAcquires key ttl) r =
     (case store r key of
        None \<Rightarrow> r\<lparr>store := (store r)(key \<mapsto> (''leased'', ttl))\<rparr>
      | Some old \<Rightarrow> r)"
| "env_step (Outage cmds) r = r\<lparr>refused := cmds\<rparr>"

definition environment :: "env_move list \<Rightarrow> Redis \<Rightarrow> Redis" where
  "environment moves r = fold env_step moves r"

text \<open>How the renewal task ended: cancelled, or returned by itself.\<close>

datatype task_end = TaskCancelled | TaskReturned

text \<open>
  The \<open>while True\<close> loop of \<open>_renew_lease_loop\<close>. Each element of the script is one
  iteration: what the environment does during the sleep, and what it does between the
  \<open>expire\<close> and the \<open>set\<close>. The script ends when the task is cancelled in its sleep
  (\<open>CancelledError\<close> is logged and raised again). Any other exception is logged and the
  task returns. The result of \<open>set(\<dots>, nx=True)\<close> is not looked at.
\<close>

fun renew_iterations ::
  "WorkerIDManager \<Rightarrow> string \<Rightarrow> (env_move list \<times> env_move list) list \<Rightarrow> Redis \<Rightarrow> log
     \<Rightarrow> task_end \<times> WorkerIDManager \<times> Redis \<times> log" where
  "renew_iterations m key [] r lines =
     (TaskCancelled, m, r, lines @ [(DEBUG, ''Lease renewal task cancelled'')])"
| "renew_iterations m key ((asleep, between) # script) r lines =
     (let r1 = environment asleep r
      in case redis_expire r1 key (lease_ttl m) of
           Inl e \<Rightarrow> (TaskReturned, m, r1, lines @ [(ERROR, ''Error in lease renewal loop'')])
         | Inr (renewed, r2) \<Rightarrow>
             if \<not> renewed then
               (let lines1 = lines @ [(WARNING, ''Worker ID ''
                        @ str_int (the (manager_worker_id m))
                        @ '' lease expired. Attempting to reacquire...'')];
                    r3 = environment between r2
                in case redis_set_nx r3 key ''leased'' (lease_ttl m) of
                     Inl e \<Rightarrow>
                       (TaskReturned, m, r3, lines1 @ [(ERROR, ''Error in lease renewal loop'')])
                   | Inr (acquired, r4) \<Rightarrow>
                       renew_iterations m key script r4
                         (lines1 @ [(DEBUG, ''Renewed lease for worker ID: ''
                                      @ str_int (the (manager_worker_id m)))]))
             else renew_iterations m key script r2
                    (lines @ [(DEBUG, ''Renewed lease for worker ID: ''
                                @ str_int (the (manager_worker_id m)))]))"

definition renew_lease_loop ::
  "WorkerIDManager \<Rightarrow> (env_move list \<times> env_move list) list \<Rightarrow> Redis
     \<Rightarrow> task_end \<times> WorkerIDManager \<times> Redis \<times> log" where
  "renew_lease_loop m script r =
     (case manager_worker_id m of
        None \<Rightarrow> (TaskReturned, m, r, [])
      | Some w \<Rightarrow> renew_iterations m (REDIS_KEY_PREFIX @ str_int w) script r [])"

section \<open>Event consumer (event-consumer/consumer.py)\<close>

text \<open>
  A row of \<open>click_events\<close> as the \<open>INSERT\<close> statement writes it: the text placed between
  the quotes of each value.
\<close>

record click_row =
  row_short_code :: string
  row_timestamp :: string
  row_user_agent :: string
  row_ip_address :: string
  row_referrer :: string
  row_original_url :: string

text \<open>The columnar store: the rows inserted so far; \<open>execute_fails\<close> makes a query raise.\<close>

record ClickHouseClient =
  click_events :: "click_row list"
  execute_fails :: bool

definition execute_insert :: "ClickHouseClient \<Rightarrow> click_row \<Rightarrow> error + ClickHouseClient" where
  "execute_insert ch row =
     (if execute_fails ch then Inl ClickHouseError
      else Inr (ch\<lparr>click_events := click_events ch @ [row]\<rparr>))"

text \<open>\<open>event.get(key, default)\<close> on the decoded dict.\<close>

definition dict_get :: "(string \<times> json) list \<Rightarrow> string \<Rightarrow> json \<Rightarrow> json" where
  "dict_get event key dflt = (case map_of event key of None \<Rightarrow> dflt | Some v \<Rightarrow> v)"

text \<open>
  \<open>escape_sql_string\<close>: \<open>s.replace("'", "''")\<close>. Only a string has \<open>replace\<close>; any
  other JSON value raises \<open>AttributeError\<close>.
\<close>

definition escape_sql_string :: "json \<Rightarrow> error + string" where
  "escape_sql_string v =
     (case v of
        JString s \<Rightarrow> Inr (str_replace (CHR 0x27) [CHR 0x27, CHR 0x27] s)
      | other \<Rightarrow> Inl AttributeError)"

text \<open>
  The \<open>try\<close> block of \<open>insert_click_event\<close>. \<open>to_datetime\<close> stands for
  \<open>datetime.fromisoformat(s).strftime("%Y-%m-%d %H:%M:%S")\<close>, \<open>None\<close> when
  \<open>fromisoformat\<close> raises \<open>ValueError\<close>.
\<close>

definition insert_click_event_try ::
  "(string \<Rightarrow> string option) \<Rightarrow> ClickHouseClient \<Rightarrow> (string \<times> json) list
     \<Rightarrow> error + ClickHouseClient" where
  "insert_click_event_try to_datetime ch event =
     (case map_of event ''timestamp'' of
        None \<Rightarrow> Inl KeyError
      | Some (JString ts) \<Rightarrow>
          (case to_datetime (str_replace CHR ''Z'' ''+00:00'' ts) of
             None \<Rightarrow> Inl ValueError
           | Some timestamp_clickhouse \<Rightarrow>
               (case escape_sql_string (dict_get event ''short_code'' (JString [])) of
                  Inl e \<Rightarrow> Inl e
                | Inr code \<Rightarrow>
               (case escape_sql_string (dict_get event ''user_agent'' (JString [])) of
                  Inl e \<Rightarrow> Inl e
                | Inr user_agent \<Rightarrow>
               (case escape_sql_string (dict_get event ''ip_address'' (JString [])) of
                  Inl e \<Rightarrow> Inl e
                | Inr ip_address \<Rightarrow>
               (case escape_sql_string (dict_get event ''referrer'' (JString [])) of
                  Inl e \<Rightarrow> Inl e
                | Inr referrer \<Rightarrow>
               (case escape_sql_string (dict_get event ''original_url'' (JString [])) of
                  Inl e \<Rightarrow> Inl e
                | Inr url \<Rightarrow>
                    execute_insert ch
                      \<lparr>row_short_code = code, row_timestamp = timestamp_clickhouse,
                       row_user_agent = user_agent, row_ip_address = ip_address,
                       row_referrer = referrer, row_original_url = url\<rparr>))))))
      | Some other \<Rightarrow> Inl AttributeError)"

text \<open>\<open>insert_click_event\<close>: \<open>except Exception\<close> logs and raises the exception again.\<close>

definition insert_click_event ::
  "(string \<Rightarrow> string option) \<Rightarrow> ClickHouseClient \<Rightarrow> (string \<times> json) list
     \<Rightarrow> (error + unit) \<times> ClickHouseClient" where
  "insert_click_event to_datetime ch event =
     (case insert_click_event_try to_datetime ch event of
        Inl e \<Rightarrow> (Inl e, ch)
      | Inr ch' \<Rightarrow> (Inr (), ch'))"

text \<open>
  What becomes of a consumed message: acknowledged, rejected and put back on the queue
  for redelivery, or rejected without requeue (the queue drops it, or passes it to a
  dead-letter exchange where one is configured).
\<close>

datatype delivery = Acknowledged | Requeued | Discarded

text \<open>
  The processing scope \<open>message.process(requeue=False)\<close> of the bus client, a library
  call. A scope that exits without error acknowledges the message. When an exception
  leaves the scope, the message is rejected with the \<open>requeue\<close> flag of the scope, and
  the exception goes on to the caller.
\<close>

definition message_process :: "bool \<Rightarrow> error + unit \<Rightarrow> delivery" where
  "message_process requeue body =
     (case body of
        Inr u \<Rightarrow> Acknowledged
      | Inl e \<Rightarrow> if requeue then Requeued else Discarded)"

text \<open>
  The \<open>try\<close> block of \<open>process_message\<close>: decode, read \<open>event_data.get('short_code')\<close> for
  the log line (only a dict has \<open>get\<close>), insert.
\<close>

definition process_message_try ::
  "(string \<Rightarrow> string option) \<Rightarrow> payload \<Rightarrow> ClickHouseClient
     \<Rightarrow> (error + unit) \<times> ClickHouseClient" where
  "process_message_try to_datetime message ch =
     (case json_loads_body message of
        Inl e \<Rightarrow> (Inl e, ch)
      | Inr (JObject event) \<Rightarrow> insert_click_event to_datetime ch event
      | Inr other \<Rightarrow> (Inl AttributeError, ch))"

text \<open>
  \<open>process_message\<close>: \<open>except json.JSONDecodeError\<close> logs and goes on, so the scope exits
  without error; \<open>except Exception\<close> logs and raises again. The scope is opened as
  \<open>message.process()\<close>, with no argument, so its \<open>requeue\<close> flag is the default
  \<open>False\<close>. The result is the fate of the message, what leaves the scope, and the
  columnar store.
\<close>

definition process_message ::
  "(string \<Rightarrow> string option) \<Rightarrow> payload \<Rightarrow> ClickHouseClient
     \<Rightarrow> delivery \<times> (error + unit) \<times> ClickHouseClient" where
  "process_message to_datetime message ch =
     (case process_message_try to_datetime message ch of
        (Inl JSONDecodeError, ch') \<Rightarrow> (message_process False (Inr ()), Inr (), ch')
      | (Inl e, ch') \<Rightarrow> (message_process False (Inl e), Inl e, ch')
      | (Inr u, ch') \<Rightarrow> (message_process False (Inr u), Inr u, ch'))"

section \<open>Auxiliary notions for the proofs\<close>

text \<open>The fields of a generator built by \<open>__init__\<close> stay within their bit widths.\<close>

definition gen_ok :: "SnowflakeIDGenerator \<Rightarrow> bool" where
  "gen_ok g \<longleftrightarrow>
     0 \<le> worker_id g \<and> worker_id g \<le> 1023 \<and> 0 \<le> sequence g \<and> sequence g \<le> 4095"

text \<open>The id that the state of a generator stands for, written with arithmetic.\<close>

definition gen_key :: "SnowflakeIDGenerator \<Rightarrow> int" where
  "gen_key g = (last_timestamp g - EPOCH) * 4194304 + worker_id g * 4096 + sequence g"

declare base62_encode_loop.simps [simp del]
declare str_nat.simps [simp del]

section \<open>Base62: decoding an encoding\<close>

lemma base62_decode_loop_snoc:
  "base62_decode_loop a (xs @ [c]) =
     (case base62_decode_loop a xs of
        Inl e \<Rightarrow> Inl e
      | Inr v \<Rightarrow> (case str_index BASE62_CHARS c of
                     Inl e \<Rightarrow> Inl e
                   | Inr i \<Rightarrow> Inr (v * 62 + i)))"
  by (induction xs arbitrary: a) (auto split: sum.splits)

lemma base62_encode_loop_acc:
  "base62_encode_loop n acc = acc @ base62_encode_loop n []"
proof (induction "nat n" arbitrary: n acc rule: less_induct)
  case less
  show ?case
  proof (cases "n > 0")
    case True
    let ?c = "BASE62_CHARS ! nat (n mod 62)"
    have smaller: "nat (n div 62) < nat n" using True by simp
    have "base62_encode_loop n acc = base62_encode_loop (n div 62) (acc @ [?c])"
      using True by (subst base62_encode_loop.simps) simp
    also have "\<dots> = (acc @ [?c]) @ base62_encode_loop (n div 62) []"
      by (rule less[OF smaller])
    also have "\<dots> = acc @ base62_encode_loop (n div 62) [?c]"
      using less[OF smaller, of "[?c]"] by simp
    also have "\<dots> = acc @ base62_encode_loop n []"
      using True by (subst (2) base62_encode_loop.simps) simp
    finally show ?thesis .
  next
    case False
    then show ?thesis by (simp add: base62_encode_loop.simps)
  qed
qed

lemma base62_encode_loop_step:
  "n > 0 \<Longrightarrow>
   base62_encode_loop n [] = BASE62_CHARS ! nat (n mod 62) # base62_encode_loop (n div 62) []"
  by (subst base62_encode_loop.simps, subst base62_encode_loop_acc) simp

lemma str_index_BASE62_CHARS:
  assumes "k < 62"
  shows "str_index BASE62_CHARS (BASE62_CHARS ! k) = Inr (int k)"
proof -
  from assms have "k \<in> set [0..<62]" by simp
  then show ?thesis
    unfolding BASE62_CHARS_def upt_rec_numeral by (auto simp: nth_Cons')
qed

lemma decode_loop_of_encode_loop:
  "0 \<le> n \<Longrightarrow> base62_decode_loop 0 (rev (base62_encode_loop n [])) = Inr n"
proof (induction "nat n" arbitrary: n rule: less_induct)
  case less
  show ?case
  proof (cases "n > 0")
    case True
    have smaller: "nat (n div 62) < nat n" using True by simp
    have digit: "nat (n mod 62) < 62" by simp
    have ih: "base62_decode_loop 0 (rev (base62_encode_loop (n div 62) [])) = Inr (n div 62)"
      using less(1)[OF smaller] True by simp
    show ?thesis
      using True ih str_index_BASE62_CHARS[OF digit]
      by (simp add: base62_encode_loop_step base62_decode_loop_snoc)
  next
    case False
    with less(2) have "n = 0" by simp
    then show ?thesis by (simp add: base62_encode_loop.simps)
  qed
qed

text \<open>
  Claim C5. For every integer \<open>n \<ge> 0\<close>, \<open>base62_decode(base62_encode(n))\<close> returns
  \<open>n\<close>: no symbol of the encoding is refused, and the decoded number is \<open>n\<close>.
\<close>

theorem base62_decode_encode:
  "0 \<le> n \<Longrightarrow> base62_decode (base62_encode n) = Inr n"
proof (cases "n = 0")
  case True
  then show ?thesis
    by (simp add: base62_decode_def base62_encode_def BASE62_CHARS_def)
next
  case False
  assume "0 \<le> n"
  with False show ?thesis
    by (simp add: base62_decode_def base62_encode_def decode_loop_of_encode_loop)
qed

theorem base62_decode_encode_witness:
  "(0::int) \<le> 4222976 \<and> base62_encode 4222976 = ''hIAw''
     \<and> base62_decode ''hIAw'' = Inr 4222976"
  using base62_decode_encode[of 4222976]
  by (simp add: base62_encode_def base62_encode_loop.simps BASE62_CHARS_def)

section \<open>Snowflake ids grow\<close>

lemma bit_below:
  assumes "0 \<le> (x::int)" "x < 2 ^ k" "bit x n"
  shows "n < k"
proof -
  have "take_bit k x = x" using assms by (simp add: take_bit_int_eq_self)
  then have "bit (take_bit k x) n" using assms(3) by simp
  then show "n < k" by (simp add: bit_take_bit_iff)
qed

lemma id_layout_sum:
  assumes "0 \<le> w" "w < 1024" "0 \<le> s" "s < 4096"
  shows "(push_bit 22 (a::int) OR push_bit 12 w) OR s = a * 4194304 + w * 4096 + s"
proof -
  have w: "\<And>n. bit w n \<Longrightarrow> n < 10" using bit_below[of w 10] assms by simp
  have s: "\<And>n. bit s n \<Longrightarrow> n < 12" using bit_below[of s 12] assms by simp
  have high: "push_bit 22 a + push_bit 12 w = push_bit 22 a OR push_bit 12 w"
    by (rule disjunctive_add) (auto simp: bit_push_bit_iff dest!: w)
  have low: "(push_bit 22 a OR push_bit 12 w) + s = (push_bit 22 a OR push_bit 12 w) OR s"
    by (rule disjunctive_add) (auto simp: bit_push_bit_iff bit_or_iff dest!: s)
  have "(push_bit 22 a OR push_bit 12 w) OR s = (push_bit 22 a OR push_bit 12 w) + s"
    using low by simp
  also have "\<dots> = (push_bit 22 a + push_bit 12 w) + s"
    using high by simp
  finally show ?thesis by (simp add: push_bit_eq_mult)
qed

lemma and_MAX_SEQUENCE: "(x::int) AND MAX_SEQUENCE = x mod 4096"
proof -
  have "x AND mask 12 = take_bit 12 x" by (simp add: take_bit_eq_mask)
  then show ?thesis
    by (simp add: MAX_SEQUENCE_def SEQUENCE_BITS_def mask_eq_exp_minus_1 take_bit_eq_mod)
qed

lemma build_id_gen_key:
  assumes "gen_ok g"
  shows "build_id g t = (gen_key (g\<lparr>last_timestamp := t\<rparr>), g\<lparr>last_timestamp := t\<rparr>)"
  using assms id_layout_sum[of "worker_id g" "sequence g" "t - EPOCH"]
  by (simp add: build_id_def gen_ok_def gen_key_def WORKER_ID_BITS_def SEQUENCE_BITS_def Let_def)

lemma wait_next_millisecond_later:
  "wait_next_millisecond l clk = Some (t, clk') \<Longrightarrow> l < t"
  by (induction clk) (auto split: if_splits)

lemma generate_step:
  assumes ok: "gen_ok g" and gen: "generate g clk = Some (r, g', clk')"
  shows "gen_ok g' \<and>
         (case r of Inl e \<Rightarrow> g' = g | Inr i \<Rightarrow> i = gen_key g' \<and> gen_key g < i)"
proof -
  obtain t clk1 where clk: "clk = t # clk1"
    using gen by (cases clk) (auto simp: generate_def current_timestamp_def)
  let ?s = "(sequence g + 1) mod 4096"
  have s_bounds: "0 \<le> ?s" "?s \<le> 4095" by simp_all
  consider (regress) "t < last_timestamp g"
    | (overflow) "t = last_timestamp g" "?s = 0"
    | (same_ms) "t = last_timestamp g" "?s \<noteq> 0"
    | (new_ms) "last_timestamp g < t" by fastforce
  then show ?thesis
  proof cases
    case regress
    then show ?thesis using gen ok by (auto simp: generate_def current_timestamp_def clk)
  next
    case overflow
    let ?g1 = "g\<lparr>sequence := 0\<rparr>"
    have ok1: "gen_ok ?g1" using ok by (simp add: gen_ok_def)
    obtain t' where w: "wait_next_millisecond (last_timestamp g) clk1 = Some (t', clk')"
      and r: "r = Inr (gen_key (?g1\<lparr>last_timestamp := t'\<rparr>))"
      and g': "g' = ?g1\<lparr>last_timestamp := t'\<rparr>"
      using gen overflow build_id_gen_key[OF ok1]
      by (auto simp: generate_def current_timestamp_def clk and_MAX_SEQUENCE Let_def
               split: option.splits)
    have "last_timestamp g < t'" using wait_next_millisecond_later[OF w] .
    then have "gen_key g < gen_key g'" using ok by (simp add: g' gen_key_def gen_ok_def)
    then show ?thesis using ok1 r g' by (simp add: gen_ok_def)
  next
    case same_ms
    let ?g1 = "g\<lparr>sequence := ?s\<rparr>"
    have ok1: "gen_ok ?g1" using ok s_bounds by (simp add: gen_ok_def)
    have r: "r = Inr (gen_key (?g1\<lparr>last_timestamp := t\<rparr>))"
      and g': "g' = ?g1\<lparr>last_timestamp := t\<rparr>"
      using gen same_ms build_id_gen_key[OF ok1]
      by (auto simp: generate_def current_timestamp_def clk and_MAX_SEQUENCE Let_def)
    have "sequence g < ?s"
    proof (cases "sequence g = 4095")
      case True
      then show ?thesis using same_ms(2) by simp
    next
      case False
      then have "?s = sequence g + 1" using ok by (simp add: gen_ok_def)
      then show ?thesis by simp
    qed
    then have "gen_key g < gen_key g'" using same_ms(1) by (simp add: g' gen_key_def)
    then show ?thesis using ok1 r g' by (simp add: gen_ok_def)
  next
    case new_ms
    let ?g1 = "g\<lparr>sequence := 0\<rparr>"
    have ok1: "gen_ok ?g1" using ok by (simp add: gen_ok_def)
    have r: "r = Inr (gen_key (?g1\<lparr>last_timestamp := t\<rparr>))"
      and g': "g' = ?g1\<lparr>last_timestamp := t\<rparr>"
      using gen new_ms build_id_gen_key[OF ok1]
      by (auto simp: generate_def current_timestamp_def clk Let_def)
    have "gen_key g < gen_key g'" using new_ms ok by (simp add: g' gen_key_def gen_ok_def)
    then show ?thesis using ok1 r g' by (simp add: gen_ok_def)
  qed
qed

lemma generate_calls_above:
  "gen_ok g \<Longrightarrow>
   sorted_wrt (<) (returned_ids (generate_calls n g clk))
     \<and> (\<forall>i \<in> set (returned_ids (generate_calls n g clk)). gen_key g < i)"
proof (induction n arbitrary: g clk)
  case 0
  then show ?case by simp
next
  case (Suc n)
  show ?case
  proof (cases "generate g clk")
    case None
    then show ?thesis by simp
  next
    case (Some a)
    then obtain r g' clk' where gen: "generate g clk = Some (r, g', clk')" by (cases a) auto
    from generate_step[OF Suc.prems gen] have ok': "gen_ok g'"
      and st: "case r of Inl e \<Rightarrow> g' = g | Inr i \<Rightarrow> i = gen_key g' \<and> gen_key g < i" by auto
    note ih = Suc.IH[OF ok', of clk']
    show ?thesis
    proof (cases r)
      case (Inl e)
      then show ?thesis using gen ih st by simp
    next
      case (Inr i)
      then show ?thesis using gen ih st by fastforce
    qed
  qed
qed

lemma snowflake_init_gen_ok: "snowflake_init w = Inr g \<Longrightarrow> gen_ok g"
  by (auto simp: snowflake_init_def gen_ok_def MAX_WORKER_ID_def WORKER_ID_BITS_def
           split: if_splits)

text \<open>
  Claim C6. Take a generator built by the constructor and any number of \<open>generate\<close>
  calls on it, under any clock: the ids of the calls that succeeded, in the order of
  the calls, are strictly increasing. A clock that runs backward makes a call raise and
  leaves the generator as it was, so the clock needs no hypothesis.
\<close>

theorem generate_strictly_increasing:
  "snowflake_init w = Inr g \<Longrightarrow> sorted_wrt (<) (returned_ids (generate_calls n g clk))"
  using generate_calls_above[OF snowflake_init_gen_ok] by blast

theorem generate_strictly_increasing_witness:
  "snowflake_init 7 = Inr \<lparr>worker_id = 7, sequence = 0, last_timestamp = - 1\<rparr>
   \<and> generate_calls 4 \<lparr>worker_id = 7, sequence = 0, last_timestamp = - 1\<rparr>
        [1704067200001, 1704067200001, 1704067200000, 1704067200002]
       = [Inr 4222976, Inr 4222977, Inl RuntimeError, Inr 8417280]
   \<and> sorted_wrt (<) (returned_ids (generate_calls 4
        \<lparr>worker_id = 7, sequence = 0, last_timestamp = - 1\<rparr>
        [1704067200001, 1704067200001, 1704067200000, 1704067200002]))"
proof -
  have init: "snowflake_init 7 = Inr \<lparr>worker_id = 7, sequence = 0, last_timestamp = - 1\<rparr>"
    by (simp add: snowflake_init_def MAX_WORKER_ID_def WORKER_ID_BITS_def)
  have run: "generate_calls 4 \<lparr>worker_id = 7, sequence = 0, last_timestamp = - 1\<rparr>
        [1704067200001, 1704067200001, 1704067200000, 1704067200002]
       = [Inr 4222976, Inr 4222977, Inl RuntimeError, Inr 8417280]"
    by (simp add: eval_nat_numeral generate_def current_timestamp_def build_id_def
          MAX_SEQUENCE_def SEQUENCE_BITS_def WORKER_ID_BITS_def EPOCH_def Let_def)
  show ?thesis using init run generate_strictly_increasing[OF init] by simp
qed

section \<open>RedisCache.set and a time to live of zero\<close>

text \<open>
  Claim C9. For every short code and URL, \<open>RedisCache.set\<close> called with \<open>ttl = 0\<close> issues
  the same \<open>SETEX\<close> as with the default: when the store accepts the command, the entry
  under \<open>short_url:{code}\<close> holds the URL with a time to live of 86400 seconds, not 0.
\<close>

theorem RedisCache_set_ttl_zero:
  "RedisCache_set r code url (Some 0) = redis_setex r (''short_url:'' @ code) 86400 url
   \<and> (SETEX \<notin> refused r \<longrightarrow>
        (\<exists>r'. RedisCache_set r code url (Some 0) = Inr r'
              \<and> store r' (''short_url:'' @ code) = Some (url, 86400)))"
  by (simp add: RedisCache_set_def redis_setex_def make_key_def KEY_PREFIX_def DEFAULT_TTL_def)

theorem RedisCache_set_ttl_zero_witness:
  "SETEX \<notin> refused \<lparr>store = Map.empty, refused = {}\<rparr>
   \<and> (\<exists>r'. RedisCache_set \<lparr>store = Map.empty, refused = {}\<rparr> ''abc''
              ''https://example.com/b'' (Some 0) = Inr r'
            \<and> store r' ''short_url:abc'' = Some (''https://example.com/b'', 86400))"
  using RedisCache_set_ttl_zero[of "\<lparr>store = Map.empty, refused = {}\<rparr>" "''abc''"
      "''https://example.com/b''"]
  by (simp add: redis_setex_def)

section \<open>The redirect on a cache miss\<close>

lemma find_unique_code:
  assumes "row \<in> set rows" "short_code row = code" "distinct (map short_code rows)"
  shows "find (\<lambda>x. short_code x = code) rows = Some row"
  using assms
proof (induction rows)
  case Nil
  then show ?case by simp
next
  case (Cons x rows)
  show ?case
  proof (cases "x = row")
    case True
    then show ?thesis using Cons.prems by simp
  next
    case False
    then have "row \<in> set rows" using Cons.prems by simp
    moreover have "short_code x \<noteq> code" using Cons.prems \<open>row \<in> set rows\<close> by force
    ultimately show ?thesis using Cons by simp
  qed
qed

lemma find_no_code:
  "code \<notin> short_code ` set rows \<Longrightarrow> find (\<lambda>x. short_code x = code) rows = None"
  by (induction rows) auto

text \<open>
  Claim C7. Let the cache answer that \<open>short_url:{code}\<close> is absent and let the
  relational store answer. If the table (with its unique index on \<open>short_code\<close>) holds
  a record \<open>(code, u)\<close> and the cache takes the backfill, the redirect is a 301 with
  Location \<open>u\<close>, and afterwards the cache holds \<open>u\<close> under \<open>short_url:{code}\<close>. If the
  table holds no record of the code, the handler fails with the 404 exception.
\<close>

theorem redirect_cache_miss:
  assumes "GET \<notin> refused redis" and "store redis (''short_url:'' @ code) = None"
    and "\<not> db_unavailable session"
  shows "(row \<in> set (table_rows session) \<and> short_code row = code
            \<and> distinct (map short_code (table_rows session)) \<and> SETEX \<notin> refused redis
          \<longrightarrow> (\<exists>redis' tasks.
                 redirect_to_url code request session redis analytics
                   = (Inr \<lparr>status_code = 301, location = original_url row\<rparr>, redis', tasks)
                 \<and> store redis' (''short_url:'' @ code) = Some (original_url row, 86400)))
       \<and> (code \<notin> short_code ` set (table_rows session)
          \<longrightarrow> redirect_to_url code request session redis analytics
                = (Inl (HTTPException 404), redis, [])
              \<and> http_status (fst (redirect_to_url code request session redis analytics)) = 404)"
proof -
  have miss: "RedisCache_get redis code = Inr None"
    using assms(1,2) by (simp add: RedisCache_get_def redis_get_def make_key_def KEY_PREFIX_def)
  have found: "\<exists>redis' tasks.
                 redirect_to_url code request session redis analytics
                   = (Inr \<lparr>status_code = 301, location = original_url row\<rparr>, redis', tasks)
                 \<and> store redis' (''short_url:'' @ code) = Some (original_url row, 86400)"
    if "row \<in> set (table_rows session)" "short_code row = code"
       "distinct (map short_code (table_rows session))" "SETEX \<notin> refused redis"
  proof -
    have "db_select_first session code = Inr (Some row)"
      using find_unique_code[OF that(1,2,3)] assms(3) by (simp add: db_select_first_def)
    then show ?thesis
      using miss that(4)
      by (simp add: redirect_to_url_def truthy_def RedisCache_set_def redis_setex_def
            make_key_def KEY_PREFIX_def DEFAULT_TTL_def Let_def)
  qed
  have absent: "redirect_to_url code request session redis analytics
                  = (Inl (HTTPException 404), redis, [])"
    if "code \<notin> short_code ` set (table_rows session)"
  proof -
    have "db_select_first session code = Inr None"
      using find_no_code[OF that] assms(3) by (simp add: db_select_first_def)
    then show ?thesis using miss by (simp add: redirect_to_url_def truthy_def)
  qed
  show ?thesis using found absent by (auto simp: http_status_def)
qed

theorem redirect_cache_miss_witness:
  "GET \<notin> refused \<lparr>store = Map.empty, refused = {}\<rparr>
   \<and> store \<lparr>store = Map.empty, refused = {}\<rparr> ''short_url:xyz'' = None
   \<and> (\<exists>redis' tasks.
        redirect_to_url ''xyz'' \<lparr>headers = Map.empty, client = None\<rparr>
          \<lparr>table_rows = [\<lparr>snowflake_id = 1, original_url = ''https://example.com/c'',
                           short_code = ''xyz'', created_at = 0\<rparr>],
            db_unavailable = False\<rparr>
          \<lparr>store = Map.empty, refused = {}\<rparr> None
          = (Inr \<lparr>status_code = 301, location = ''https://example.com/c''\<rparr>, redis', tasks)
        \<and> store redis' ''short_url:xyz'' = Some (''https://example.com/c'', 86400))
   \<and> redirect_to_url ''nope'' \<lparr>headers = Map.empty, client = None\<rparr>
          \<lparr>table_rows = [\<lparr>snowflake_id = 1, original_url = ''https://example.com/c'',
                           short_code = ''xyz'', created_at = 0\<rparr>],
            db_unavailable = False\<rparr>
          \<lparr>store = Map.empty, refused = {}\<rparr> None
        = (Inl (HTTPException 404), \<lparr>store = Map.empty, refused = {}\<rparr>, [])"
  using
    redirect_cache_miss[of "\<lparr>store = Map.empty, refused = {}\<rparr>" "''xyz''"
      "\<lparr>table_rows = [\<lparr>snowflake_id = 1, original_url = ''https://example.com/c'',
                       short_code = ''xyz'', created_at = 0\<rparr>], db_unavailable = False\<rparr>"
      "\<lparr>snowflake_id = 1, original_url = ''https://example.com/c'',
        short_code = ''xyz'', created_at = 0\<rparr>"
      "\<lparr>headers = Map.empty, client = None\<rparr>" None]
    redirect_cache_miss[of "\<lparr>store = Map.empty, refused = {}\<rparr>" "''nope''"
      "\<lparr>table_rows = [\<lparr>snowflake_id = 1, original_url = ''https://example.com/c'',
                       short_code = ''xyz'', created_at = 0\<rparr>], db_unavailable = False\<rparr>"
      "\<lparr>snowflake_id = 1, original_url = ''https://example.com/c'',
        short_code = ''xyz'', created_at = 0\<rparr>"
      "\<lparr>headers = Map.empty, client = None\<rparr>" None]
  by simp

section \<open>A failing cache backfill\<close>

text \<open>
  Claim C4, as stated, fails: with the record in the relational store and a cache that
  refuses the backfill write, the handler does not answer 301. The exception of the
  write leaves \<open>redirect_to_url\<close> and the reply is a 500.
\<close>

theorem backfill_failure_counterexample:
  "fst (redirect_to_url ''xyz'' \<lparr>headers = Map.empty, client = None\<rparr>
          \<lparr>table_rows = [\<lparr>snowflake_id = 1, original_url = ''https://example.com/c'',
                           short_code = ''xyz'', created_at = 0\<rparr>],
            db_unavailable = False\<rparr>
          \<lparr>store = Map.empty, refused = {SETEX}\<rparr> None) = Inl RedisError
   \<and> http_status (fst (redirect_to_url ''xyz'' \<lparr>headers = Map.empty, client = None\<rparr>
          \<lparr>table_rows = [\<lparr>snowflake_id = 1, original_url = ''https://example.com/c'',
                           short_code = ''xyz'', created_at = 0\<rparr>],
            db_unavailable = False\<rparr>
          \<lparr>store = Map.empty, refused = {SETEX}\<rparr> None)) \<noteq> 301"
  by (simp add: redirect_to_url_def RedisCache_get_def redis_get_def make_key_def truthy_def
        db_select_first_def RedisCache_set_def redis_setex_def http_status_def)

text \<open>
  Claim C4, amended. On the cache-miss path (the cache answered, with nothing or with
  an empty value) with the record found in the relational store: a failure of the
  backfill write is not caught, it leaves the handler as its exception (reply 500, cache
  unchanged, no click event scheduled); when the write succeeds the response is the 301
  with the URL of the record.
\<close>

theorem redirect_backfill_outcomes:
  assumes "RedisCache_get redis code = Inr cached" and "\<not> truthy cached"
    and "db_select_first session code = Inr (Some row)"
  shows "(SETEX \<in> refused redis \<longrightarrow>
            redirect_to_url code request session redis analytics = (Inl RedisError, redis, [])
            \<and> http_status (fst (redirect_to_url code request session redis analytics)) = 500)
       \<and> (SETEX \<notin> refused redis \<longrightarrow>
            fst (redirect_to_url code request session redis analytics)
              = Inr \<lparr>status_code = 301, location = original_url row\<rparr>
            \<and> http_status (fst (redirect_to_url code request session redis analytics)) = 301)"
  using assms
  by (simp add: redirect_to_url_def RedisCache_set_def redis_setex_def http_status_def Let_def)

theorem redirect_backfill_outcomes_witness:
  "RedisCache_get \<lparr>store = Map.empty, refused = {SETEX}\<rparr> ''xyz'' = Inr None
   \<and> \<not> truthy None
   \<and> db_select_first
        \<lparr>table_rows = [\<lparr>snowflake_id = 1, original_url = ''https://example.com/c'',
                         short_code = ''xyz'', created_at = 0\<rparr>], db_unavailable = False\<rparr> ''xyz''
       = Inr (Some \<lparr>snowflake_id = 1, original_url = ''https://example.com/c'',
                    short_code = ''xyz'', created_at = 0\<rparr>)
   \<and> redirect_to_url ''xyz'' \<lparr>headers = Map.empty, client = None\<rparr>
        \<lparr>table_rows = [\<lparr>snowflake_id = 1, original_url = ''https://example.com/c'',
                         short_code = ''xyz'', created_at = 0\<rparr>], db_unavailable = False\<rparr>
        \<lparr>store = Map.empty, refused = {SETEX}\<rparr> None
       = (Inl RedisError, \<lparr>store = Map.empty, refused = {SETEX}\<rparr>, [])
   \<and> RedisCache_get \<lparr>store = Map.empty, refused = {}\<rparr> ''xyz'' = Inr None
   \<and> fst (redirect_to_url ''xyz'' \<lparr>headers = Map.empty, client = None\<rparr>
        \<lparr>table_rows = [\<lparr>snowflake_id = 1, original_url = ''https://example.com/c'',
                         short_code = ''xyz'', created_at = 0\<rparr>], db_unavailable = False\<rparr>
        \<lparr>store = Map.empty, refused = {}\<rparr> None)
       = Inr \<lparr>status_code = 301, location = ''https://example.com/c''\<rparr>"
proof -
  let ?db = "\<lparr>table_rows = [\<lparr>snowflake_id = 1, original_url = ''https://example.com/c'',
                         short_code = ''xyz'', created_at = 0\<rparr>], db_unavailable = False\<rparr>"
  let ?row = "\<lparr>snowflake_id = 1, original_url = ''https://example.com/c'',
                    short_code = ''xyz'', created_at = 0\<rparr>"
  have g1: "RedisCache_get \<lparr>store = Map.empty, refused = {SETEX}\<rparr> ''xyz'' = Inr None"
    by (simp add: RedisCache_get_def redis_get_def)
  have g2: "RedisCache_get \<lparr>store = Map.empty, refused = {}\<rparr> ''xyz'' = Inr None"
    by (simp add: RedisCache_get_def redis_get_def)
  have t: "\<not> truthy None" by (simp add: truthy_def)
  have d: "db_select_first ?db ''xyz'' = Inr (Some ?row)" by (simp add: db_select_first_def)
  show ?thesis
    using g1 g2 t d
      redirect_backfill_outcomes[OF g1 t d, of "\<lparr>headers = Map.empty, client = None\<rparr>" None]
      redirect_backfill_outcomes[OF g2 t d, of "\<lparr>headers = Map.empty, client = None\<rparr>" None]
    by simp
qed

section \<open>A failing publish and the redirect\<close>

lemma publish_click_event_returns:
  "fst (publish_click_event pub code request url now) = Inr ()"
  by (simp add: publish_click_event_def split: sum.splits)

lemma serve_redirect_response:
  "fst (serve_redirect code request session redis analytics now)
     = fst (redirect_to_url code request session redis analytics)"
proof -
  obtain response redis' tasks
    where r: "redirect_to_url code request session redis analytics = (response, redis', tasks)"
    by (cases "redirect_to_url code request session redis analytics") auto
  show ?thesis
  proof (cases analytics)
    case None
    then show ?thesis using r by (simp add: serve_redirect_def)
  next
    case (Some pub)
    obtain pub' lines where "run_tasks pub now tasks = (pub', lines)"
      by (cases "run_tasks pub now tasks") auto
    then show ?thesis using r Some by (simp add: serve_redirect_def)
  qed
qed

lemma serve_redirect_cache:
  "fst (snd (serve_redirect code request session redis analytics now))
     = fst (snd (redirect_to_url code request session redis analytics))"
proof -
  obtain response redis' tasks
    where r: "redirect_to_url code request session redis analytics = (response, redis', tasks)"
    by (cases "redirect_to_url code request session redis analytics") auto
  show ?thesis
  proof (cases analytics)
    case None
    then show ?thesis using r by (simp add: serve_redirect_def)
  next
    case (Some pub)
    obtain pub' lines where "run_tasks pub now tasks = (pub', lines)"
      by (cases "run_tasks pub now tasks") auto
    then show ?thesis using r Some by (simp add: serve_redirect_def)
  qed
qed

text \<open>
  Claim C8. Whatever goes wrong inside the publish (connection lost, channel closed,
  serialisation error), \<open>publish_click_event\<close> logs one warning and returns normally,
  and the request served with the failing publisher has the same response (status and
  Location, or the same exception) and leaves the same cache as the request served with
  a publisher that works.
\<close>

theorem publish_failure_isolated:
  "publish_click_event (pub\<lparr>fault := Some f\<rparr>) code request url now
     = (Inr (), pub\<lparr>fault := Some f\<rparr>, [(WARNING, ''Failed to publish click event for '' @ code)])
   \<and> fst (serve_redirect code request session redis (Some (pub\<lparr>fault := Some f\<rparr>)) now)
     = fst (serve_redirect code request session redis (Some (pub\<lparr>fault := None\<rparr>)) now)
   \<and> fst (snd (serve_redirect code request session redis (Some (pub\<lparr>fault := Some f\<rparr>)) now))
     = fst (snd (serve_redirect code request session redis (Some (pub\<lparr>fault := None\<rparr>)) now))"
proof -
  have "publish_click_event (pub\<lparr>fault := Some f\<rparr>) code request url now
     = (Inr (), pub\<lparr>fault := Some f\<rparr>, [(WARNING, ''Failed to publish click event for '' @ code)])"
    by (cases f) (simp_all add: publish_click_event_def publish_click_event_try_def Let_def)
  moreover have "fst (redirect_to_url code request session redis (Some a))
                   = fst (redirect_to_url code request session redis (Some b))
                 \<and> fst (snd (redirect_to_url code request session redis (Some a)))
                   = fst (snd (redirect_to_url code request session redis (Some b)))" for a b
    by (simp add: redirect_to_url_def Let_def split: sum.splits option.splits)
  ultimately show ?thesis
    by (simp add: serve_redirect_response serve_redirect_cache)
qed

theorem publish_failure_isolated_witness:
  "fst (serve_redirect ''xyz'' \<lparr>headers = Map.empty, client = None\<rparr>
          \<lparr>table_rows = [\<lparr>snowflake_id = 1, original_url = ''https://example.com/c'',
                           short_code = ''xyz'', created_at = 0\<rparr>], db_unavailable = False\<rparr>
          \<lparr>store = Map.empty, refused = {}\<rparr>
          (Some \<lparr>exchange = [], fault = Some ChannelClosed\<rparr>) ''2024-01-01T00:00:00'')
     = Inr \<lparr>status_code = 301, location = ''https://example.com/c''\<rparr>
   \<and> fst (serve_redirect ''xyz'' \<lparr>headers = Map.empty, client = None\<rparr>
          \<lparr>table_rows = [\<lparr>snowflake_id = 1, original_url = ''https://example.com/c'',
                           short_code = ''xyz'', created_at = 0\<rparr>], db_unavailable = False\<rparr>
          \<lparr>store = Map.empty, refused = {}\<rparr>
          (Some \<lparr>exchange = [], fault = None\<rparr>) ''2024-01-01T00:00:00'')
     = Inr \<lparr>status_code = 301, location = ''https://example.com/c''\<rparr>"
proof -
  let ?db = "\<lparr>table_rows = [\<lparr>snowflake_id = 1, original_url = ''https://example.com/c'',
                         short_code = ''xyz'', created_at = 0\<rparr>], db_unavailable = False\<rparr>"
  have ok: "fst (serve_redirect ''xyz'' \<lparr>headers = Map.empty, client = None\<rparr> ?db
          \<lparr>store = Map.empty, refused = {}\<rparr>
          (Some \<lparr>exchange = [], fault = None\<rparr>) ''2024-01-01T00:00:00'')
     = Inr \<lparr>status_code = 301, location = ''https://example.com/c''\<rparr>"
    by (simp add: serve_redirect_response redirect_to_url_def RedisCache_get_def redis_get_def
          truthy_def db_select_first_def RedisCache_set_def redis_setex_def Let_def)
  show ?thesis
    using ok publish_failure_isolated[where pub = "\<lparr>exchange = [], fault = None\<rparr>"
        and f = ChannelClosed and code = "''xyz''"
        and request = "\<lparr>headers = Map.empty, client = None\<rparr>"
        and url = "''https://example.com/c''" and now = "''2024-01-01T00:00:00''"
        and session = ?db and redis = "\<lparr>store = Map.empty, refused = {}\<rparr>"]
    by simp
qed

section \<open>The short code and the stored id\<close>

text \<open>
  Claim C1 does not hold of the code: \<open>create_short_url\<close> calls \<open>generate()\<close> for the id
  it stores and then \<open>generate_short_code()\<close>, which calls \<open>generate()\<close> once more and
  encodes that second id. With worker 7 and the clock at 1704067200001 the record keeps
  the id 4222976, whose encoding is \<open>hIAw\<close>, next to the code \<open>hIAx\<close> of 4222977.
\<close>

theorem create_short_url_code_of_second_id:
  "map_option (\<lambda>(reply, session, rest). (reply, table_rows session))
     (create_short_url (Some (ShortenRequest ''https://example.com/a''))
        \<lparr>table_rows = [], db_unavailable = False\<rparr>
        (Some \<lparr>worker_id = 7, sequence = 0, last_timestamp = - 1\<rparr>)
        [1704067200001, 1704067200001] 0 \<lparr>store = Map.empty, refused = {}\<rparr>)
     = Some (Inr [(''short_code'', ''hIAx''),
                  (''short_url'', ''http://localhost:8000/hIAx''),
                  (''original_url'', ''https://example.com/a'')],
             [\<lparr>snowflake_id = 4222976, original_url = ''https://example.com/a'',
               short_code = ''hIAx'', created_at = 0\<rparr>])
   \<and> base62_encode 4222976 = ''hIAw''
   \<and> base62_encode 4222977 = ''hIAx''"
proof -
  have first: "generate \<lparr>worker_id = 7, sequence = 0, last_timestamp = - 1\<rparr>
                 [1704067200001, 1704067200001]
      = Some (Inr 4222976, \<lparr>worker_id = 7, sequence = 0, last_timestamp = 1704067200001\<rparr>,
              [1704067200001])"
    by (simp add: generate_def current_timestamp_def build_id_def
          SEQUENCE_BITS_def WORKER_ID_BITS_def EPOCH_def Let_def)
  have second: "generate \<lparr>worker_id = 7, sequence = 0, last_timestamp = 1704067200001\<rparr>
                  [1704067200001]
      = Some (Inr 4222977, \<lparr>worker_id = 7, sequence = 1, last_timestamp = 1704067200001\<rparr>, [])"
    by (simp add: generate_def current_timestamp_def build_id_def MAX_SEQUENCE_def
          SEQUENCE_BITS_def WORKER_ID_BITS_def EPOCH_def Let_def)
  have w: "base62_encode 4222976 = ''hIAw''"
    by (simp add: base62_encode_def base62_encode_loop.simps BASE62_CHARS_def)
  have x: "base62_encode 4222977 = ''hIAx''"
    by (simp add: base62_encode_def base62_encode_loop.simps BASE62_CHARS_def)
  show ?thesis
    using w x
    by (simp add: create_short_url_def first second generate_short_code_def db_add_commit_def
          RedisCache_set_def redis_setex_def settings_def rstrip_def Let_def)
qed

section \<open>A payload that is not JSON\<close>

text \<open>
  Claim C2 does not hold of the code: when \<open>json.loads\<close> raises \<open>JSONDecodeError\<close>,
  \<open>process_message\<close> catches it, logs, and leaves the processing scope without an
  error, so the scope acknowledges the message; nothing is inserted. The comment in
  the handler says that the message will be rejected.
\<close>

theorem process_message_not_json_acknowledged:
  "process_message to_datetime NotJson ch = (Acknowledged, Inr (), ch)"
  by (simp add: process_message_def process_message_try_def json_loads_body_def
        message_process_def)

section \<open>A lease slot taken by another process\<close>

text \<open>Whatever happens in the loop, the manager keeps the worker id it had.\<close>

lemma renew_iterations_manager:
  "fst (snd (renew_iterations m key script r lines)) = m"
proof (induction script arbitrary: r lines)
  case Nil
  then show ?case by simp
next
  case (Cons it script)
  obtain asleep between where it: "it = (asleep, between)" by (cases it) auto
  show ?case
    unfolding it
    by (simp add: Cons.IH Let_def split: sum.splits prod.splits)
qed

text \<open>
  Claim C3 does not hold of the code. Worker 0 holds its lease; during the sleep the
  lease runs out, and between \<open>expire\<close> (which reports the key absent) and the
  \<open>set\<close>-if-absent another process takes the slot, so the \<open>set\<close> fails. Its result is not
  looked at: the loop logs \<open>Renewed lease for worker ID: 0\<close>, goes on to the next
  iteration (where it extends the lease of the other process) and runs until it is
  cancelled. The manager still has worker id 0, and nothing was acquired or shut down.
\<close>

theorem renew_lease_loop_ignores_lost_slot:
  "(case renew_lease_loop \<lparr>manager_worker_id = Some 0, lease_ttl = 60, renewal_interval = 30\<rparr>
           [([LeaseExpires ''worker_id:lease:0''], [OtherAcquires ''worker_id:lease:0'' 60]),
            ([], [])]
           \<lparr>store = [''worker_id:lease:0'' \<mapsto> (''leased'', 60)], refused = {}\<rparr>
    of (ended, m, r, lines) \<Rightarrow> (ended, manager_worker_id m, lines))
   = (TaskCancelled, Some 0,
      [(WARNING, ''Worker ID 0 lease expired. Attempting to reacquire...''),
       (DEBUG, ''Renewed lease for worker ID: 0''),
       (DEBUG, ''Renewed lease for worker ID: 0''),
       (DEBUG, ''Lease renewal task cancelled'')])
   \<and> redis_set_nx
        (environment [OtherAcquires ''worker_id:lease:0'' 60]
           (environment [LeaseExpires ''worker_id:lease:0'']
              \<lparr>store = [''worker_id:lease:0'' \<mapsto> (''leased'', 60)], refused = {}\<rparr>))
        ''worker_id:lease:0'' ''leased'' 60
     = Inr (False,
            environment [OtherAcquires ''worker_id:lease:0'' 60]
              (environment [LeaseExpires ''worker_id:lease:0'']
                 \<lparr>store = [''worker_id:lease:0'' \<mapsto> (''leased'', 60)], refused = {}\<rparr>))"
  by (simp add: renew_lease_loop_def REDIS_KEY_PREFIX_def str_int_def str_nat.simps
        environment_def redis_expire_def redis_set_nx_def Let_def)

section \<open>Missing fields of a click event\<close>








end
